theory Spec2Isabelle
  imports Complex_Main "HOL-Library.List_Lexorder" "HOL-Library.Char_ord"
    "HOL-Library.Product_Lexorder"
begin

section \<open>Common conventions\<close>

text \<open>
  The repository consists of three pandas scripts and a dashboard.  A float column is
  modelled as a list of \<open>real option\<close> where \<open>None\<close> is pandas' NaN (null); floating-point
  rounding is not modelled, arithmetic is exact.  A text cell is a \<open>string\<close>; an empty
  cell of a text column is \<open>None\<close>.  A Python exception is a value of type \<open>error\<close>,
  returned on the left of a sum.
\<close>

datatype error = ValueError | KeyError string | ZeroDivisionError

section \<open>The scorer: \<open>src/data/risk_score.py\<close>\<close>

text \<open>
  \<open>raw_scores\<close> is the negated output of the fitted anomaly model of lines 12 to 16, one
  magnitude per row of the batch; the model itself is library code and stays opaque.
  Line 17: \<open>100 * (raw_scores - raw_scores.min()) / (raw_scores.max() - raw_scores.min() + 1e-9)\<close>.
  \<open>min()\<close> and \<open>max()\<close> of an empty numpy array raise \<open>ValueError\<close>.
\<close>

definition epsilon :: real where
  "epsilon = 1 / 10 ^ 9"

definition risk_score :: "real list \<Rightarrow> error + real list" where
  "risk_score raw_scores =
     (if raw_scores = [] then Inl ValueError
      else Inr (map (\<lambda>r. 100 * (r - Min (set raw_scores))
                        / (Max (set raw_scores) - Min (set raw_scores) + epsilon))
                    raw_scores))"

section \<open>The feature pipeline: \<open>src/data/prepare_data.py\<close>\<close>

subsection \<open>Rows after classification (steps 1 to 6)\<close>

text \<open>
  Steps 1 to 6 of the script read the CSV, normalise the text columns and split the
  country-level rows into the frames \<open>dengue\<close> and \<open>pop\<close>.  Both frames keep the columns
  of the input table, taken here to be the nine required ones, plus the two derived
  \<open>_norm\<close> columns.  A row records the columns that the later steps read.
  \<open>time_dim_type\<close> and the \<open>_norm\<close> columns went through \<open>astype(str)\<close> and are never
  null; the other text columns may hold an empty cell.
\<close>

record indicator_row =
  spatial_dim :: "string option"
  spatial_dim_en :: "string option"
  spatial_dim_es :: "string option"
  time_dim_type :: string
  time_dim :: "string option"
  numeric_value :: "real option"
  indicator_name_norm :: string
  nombre_indicador_norm :: string

definition raw_columns :: "string list" where
  "raw_columns = [''indicator_name'', ''nombre_indicador'', ''spatial_dim_type'',
     ''spatial_dim'', ''spatial_dim_en'', ''spatial_dim_es'', ''time_dim_type'',
     ''time_dim'', ''numeric_value'', ''indicator_name_norm'', ''nombre_indicador_norm'']"

subsection \<open>Library operations used by the script\<close>

text \<open>\<open>astype(str)\<close> on a cell: a null cell becomes the text \<open>nan\<close>.\<close>

definition astype_str :: "string option \<Rightarrow> string" where
  "astype_str v = (case v of None \<Rightarrow> ''nan'' | Some s \<Rightarrow> s)"

text \<open>
  \<open>astype(int)\<close> on a text cell is Python's \<open>int\<close>: surrounding whitespace is dropped,
  one sign is allowed, then decimal digits, with single underscores between digits.
  Anything else raises \<open>ValueError\<close> (here \<open>None\<close>).  Only ASCII is modelled.
\<close>

definition is_space :: "char \<Rightarrow> bool" where
  "is_space c = (of_char c \<in> {9, 10, 11, 12, 13, 28, 29, 30, 31, 32 :: nat})"

definition is_digit :: "char \<Rightarrow> bool" where
  "is_digit c = (48 \<le> (of_char c :: nat) \<and> (of_char c :: nat) \<le> 57)"

definition digit_val :: "char \<Rightarrow> int" where
  "digit_val c = int (of_char c) - 48"

definition strip :: "string \<Rightarrow> string" where
  "strip s = rev (dropWhile is_space (rev (dropWhile is_space s)))"

fun parse_digits :: "int \<Rightarrow> string \<Rightarrow> int option" where
  "parse_digits acc [] = Some acc"
| "parse_digits acc (c # cs) =
     (if is_digit c then parse_digits (10 * acc + digit_val c) cs
      else if c = CHR ''_'' then
        (case cs of [] \<Rightarrow> None
         | d # ds \<Rightarrow> if is_digit d then parse_digits (10 * acc + digit_val d) ds else None)
      else None)"

definition py_uint :: "string \<Rightarrow> int option" where
  "py_uint s = (case s of [] \<Rightarrow> None
                | c # cs \<Rightarrow> if is_digit c then parse_digits (digit_val c) cs else None)"

definition py_int :: "string \<Rightarrow> int option" where
  "py_int s =
     (case strip s of
        [] \<Rightarrow> None
      | c # cs \<Rightarrow> if c = CHR ''-'' then map_option uminus (py_uint cs)
                 else if c = CHR ''+'' then py_uint cs
                 else py_uint (c # cs))"

text \<open>\<open>d["time_dim"].astype(str).str.slice(0, 4).astype(int)\<close> on one cell.\<close>

definition year_of :: "string option \<Rightarrow> int option" where
  "year_of t = py_int (take 4 (astype_str t))"

text \<open>\<open>str.contains\<close> with a pattern free of regex metacharacters: substring search.\<close>

fun str_contains :: "string \<Rightarrow> string \<Rightarrow> bool" where
  "str_contains pat [] = (pat = [])"
| "str_contains pat (c # cs) = (take (length pat) (c # cs) = pat \<or> str_contains pat cs)"

text \<open>
  Aggregations skip null values: \<open>sum\<close> of nothing is 0, \<open>mean\<close> of nothing is null.
\<close>

definition pd_sum :: "real option list \<Rightarrow> real" where
  "pd_sum vs = sum_list (List.map_filter (\<lambda>v. v) vs)"

definition pd_mean :: "real option list \<Rightarrow> real option" where
  "pd_mean vs =
     (let xs = List.map_filter (\<lambda>v. v) vs
      in if xs = [] then None else Some (sum_list xs / real (length xs)))"

text \<open>
  \<open>rows.groupby(key, as_index=False)[col].agg()\<close>: rows with a null in a key column are
  dropped (\<open>key r = None\<close>), there is one output row per distinct key, and the output is
  sorted by key.  The output has the key columns and \<open>col\<close>, nothing else.
\<close>

definition groupby_agg ::
  "('r \<Rightarrow> 'k::linorder option) \<Rightarrow> ('r \<Rightarrow> 'v) \<Rightarrow> ('v list \<Rightarrow> 'w) \<Rightarrow> 'r list \<Rightarrow> ('k \<times> 'w) list" where
  "groupby_agg key col agg rows =
     map (\<lambda>k. (k, agg (map col (filter (\<lambda>r. key r = Some k) rows))))
         (sort (remdups (List.map_filter key rows)))"

text \<open>
  \<open>left.merge(right, on=key, how="left")\<close>: every left row is kept, in the order of the
  left frame; it is paired with each right row of equal key, or with null when there is
  none.
\<close>

definition merge_left :: "('k \<times> 'a) list \<Rightarrow> ('k \<times> 'b option) list \<Rightarrow> ('k \<times> 'a \<times> 'b option) list" where
  "merge_left left right =
     concat (map (\<lambda>(k, a).
                    case filter (\<lambda>(k', b). k' = k) right of
                      [] \<Rightarrow> [(k, a, None)]
                    | ms \<Rightarrow> map (\<lambda>(k', b). (k, a, b)) ms)
                 left)"

text \<open>\<open>Series.shift(n)\<close> and \<open>Series.rolling(w, min_periods=mp).mean()\<close> on a series without nulls.\<close>

definition shift :: "nat \<Rightarrow> real list \<Rightarrow> real option list" where
  "shift n s = replicate (min n (length s)) None @ map Some (take (length s - n) s)"

definition rolling_mean :: "nat \<Rightarrow> nat \<Rightarrow> real list \<Rightarrow> real option list" where
  "rolling_mean w mp s =
     map (\<lambda>j. let win = drop (Suc j - w) (take (Suc j) s)
              in if mp \<le> length win then Some (sum_list win / real (length win)) else None)
         [0..<length s]"

subsection \<open>Step 7: choice of the time dimension\<close>

type_synonym year_key = "string \<times> string \<times> string \<times> int"
type_synonym time_key = "string \<times> string \<times> string \<times> string"

text \<open>
  After step 7 the two frames are either the input rows restricted to \<open>YEAR\<close>, with all
  their columns, or the results of two \<open>groupby\<close> aggregations over the \<open>MONTH\<close> rows,
  with the columns \<open>spatial_dim, spatial_dim_en, spatial_dim_es, year, numeric_value\<close>.
\<close>

datatype chosen =
    Yearly "indicator_row list" "indicator_row list"
  | Monthly "(year_key \<times> real) list" "(year_key \<times> real option) list"

fun assign_year :: "indicator_row list \<Rightarrow> error + (indicator_row \<times> int) list" where
  "assign_year [] = Inr []"
| "assign_year (r # rs) =
     (case year_of (time_dim r) of
        None \<Rightarrow> Inl ValueError
      | Some y \<Rightarrow> (case assign_year rs of
                     Inl e \<Rightarrow> Inl e
                   | Inr ys \<Rightarrow> Inr ((r, y) # ys)))"

definition month_key :: "indicator_row \<times> int \<Rightarrow> year_key option" where
  "month_key ry =
     (case (spatial_dim (fst ry), spatial_dim_en (fst ry), spatial_dim_es (fst ry)) of
        (Some c, Some en, Some es) \<Rightarrow> Some (c, en, es, snd ry)
      | _ \<Rightarrow> None)"

definition choose_time_dim :: "indicator_row list \<Rightarrow> indicator_row list \<Rightarrow> error + chosen" where
  "choose_time_dim dengue pop =
     (if ''YEAR'' \<in> set (map time_dim_type dengue)
      then Inr (Yearly (filter (\<lambda>r. time_dim_type r = ''YEAR'') dengue)
                       (filter (\<lambda>r. time_dim_type r = ''YEAR'') pop))
      else
        (case assign_year (filter (\<lambda>r. time_dim_type r = ''MONTH'') dengue) of
           Inl e \<Rightarrow> Inl e
         | Inr dm \<Rightarrow>
            (case assign_year (filter (\<lambda>r. time_dim_type r = ''MONTH'') pop) of
               Inl e \<Rightarrow> Inl e
             | Inr pm \<Rightarrow>
                 Inr (Monthly (groupby_agg month_key (\<lambda>ry. numeric_value (fst ry)) pd_sum dm)
                              (groupby_agg month_key (\<lambda>ry. numeric_value (fst ry)) pd_mean pm)))))"

definition grouped_columns :: "string list" where
  "grouped_columns = [''spatial_dim'', ''spatial_dim_en'', ''spatial_dim_es'', ''year'', ''numeric_value'']"

definition rename :: "string \<Rightarrow> string \<Rightarrow> string list \<Rightarrow> string list" where
  "rename old new cols = map (\<lambda>c. if c = old then new else c) cols"

text \<open>The columns of \<open>dengue_y\<close> and \<open>pop_y\<close> after the renaming of step 8.\<close>

fun dengue_y_columns :: "chosen \<Rightarrow> string list" where
  "dengue_y_columns (Yearly dy py) = rename ''numeric_value'' ''dengue_cases'' raw_columns"
| "dengue_y_columns (Monthly dm pm) = rename ''numeric_value'' ''dengue_cases'' grouped_columns"



subsection \<open>Steps 8 to 12: the aligner\<close>

record joined_row =
  f_spatial_dim :: string
  f_spatial_dim_en :: string
  f_spatial_dim_es :: string
  f_time_dim :: string
  dengue_cases :: real
  population :: "real option"
  year :: int
  cases_per_100k :: "real option"

record feature_row = joined_row +
  lag_cases_1 :: "real option"
  lag_cases_2 :: "real option"
  ma3_cases :: "real option"

text \<open>Lines 83 to 88, on one population row of the \<open>YEAR\<close> branch.\<close>

definition is_thousands :: "indicator_row \<Rightarrow> bool" where
  "is_thousands r = (str_contains ''thousand'' (indicator_name_norm r)
                     \<or> str_contains ''mil'' (nombre_indicador_norm r))"

definition population_of :: "indicator_row \<Rightarrow> real option" where
  "population_of r = (if is_thousands r then map_option (\<lambda>v. v * 1000) (numeric_value r)
                      else numeric_value r)"

text \<open>Line 91: the grouping key of the \<open>YEAR\<close> branch, null when one of its cells is.\<close>

definition time_key_of :: "indicator_row \<Rightarrow> time_key option" where
  "time_key_of r =
     (case (spatial_dim r, spatial_dim_en r, spatial_dim_es r, time_dim r) of
        (Some c, Some en, Some es, Some t) \<Rightarrow> Some (c, en, es, t)
      | _ \<Rightarrow> None)"

text \<open>Lines 106 to 108: \<open>replace(0, nan)\<close>, then the division and the factor.\<close>

definition replace_zero :: "real option \<Rightarrow> real option" where
  "replace_zero p = (if p = Some 0 then None else p)"

definition rate :: "real \<Rightarrow> real option \<Rightarrow> real option" where
  "rate cases p = map_option (\<lambda>q. q * 100000) (map_option (\<lambda>d. cases / d) (replace_zero p))"

text \<open>Lines 102 to 108 on one merged row; \<open>astype(int)\<close> may raise.\<close>

definition join_row :: "time_key \<times> real \<times> real option \<Rightarrow> error + joined_row" where
  "join_row m =
     (case m of ((c, en, es, t), cases, p) \<Rightarrow>
        (case year_of (Some t) of
           None \<Rightarrow> Inl ValueError
         | Some y \<Rightarrow> Inr \<lparr>f_spatial_dim = c, f_spatial_dim_en = en, f_spatial_dim_es = es,
                          f_time_dim = t, dengue_cases = cases, population = p, year = y,
                          cases_per_100k = rate cases p\<rparr>))"

fun join_rows :: "(time_key \<times> real \<times> real option) list \<Rightarrow> error + joined_row list" where
  "join_rows [] = Inr []"
| "join_rows (m # ms) =
     (case join_row m of
        Inl e \<Rightarrow> Inl e
      | Inr r \<Rightarrow> (case join_rows ms of Inl e \<Rightarrow> Inl e | Inr rs \<Rightarrow> Inr (r # rs)))"

text \<open>
  \<open>df.groupby("spatial_dim")["dengue_cases"].f()\<close> for a function \<open>f\<close> from a series to a
  series of the same length: row \<open>i\<close> receives the value that \<open>f\<close> gives, on the series of
  its country, at the position that the row has within its country.
\<close>

definition group_transform :: "(real list \<Rightarrow> 'b list) \<Rightarrow> joined_row list \<Rightarrow> 'b list" where
  "group_transform f rows =
     map (\<lambda>i. f (map dengue_cases (filter (\<lambda>h. f_spatial_dim h = f_spatial_dim (rows ! i)) rows))
              ! length (filter (\<lambda>h. f_spatial_dim h = f_spatial_dim (rows ! i)) (take i rows)))
         [0..<length rows]"

definition with_features ::
  "joined_row \<Rightarrow> real option \<Rightarrow> real option \<Rightarrow> real option \<Rightarrow> feature_row" where
  "with_features r l1 l2 m =
     \<lparr>f_spatial_dim = f_spatial_dim r, f_spatial_dim_en = f_spatial_dim_en r,
      f_spatial_dim_es = f_spatial_dim_es r, f_time_dim = f_time_dim r,
      dengue_cases = dengue_cases r, population = population r, year = year r,
      cases_per_100k = cases_per_100k r,
      lag_cases_1 = l1, lag_cases_2 = l2, ma3_cases = m\<rparr>"

text \<open>Lines 111 to 116: the stable sort by country and year, then the three columns.\<close>

definition lag_ma :: "joined_row list \<Rightarrow> feature_row list" where
  "lag_ma rows =
     (let df_yr = sort_key (\<lambda>r. (f_spatial_dim r, year r)) rows
      in map (\<lambda>i. with_features (df_yr ! i)
                     (group_transform (shift 1) df_yr ! i)
                     (group_transform (shift 2) df_yr ! i)
                     (group_transform (rolling_mean 3 1) df_yr ! i))
             [0..<length df_yr])"

text \<open>
  Steps 8 to 12.  On the \<open>MONTH\<close> branch \<open>pop_y\<close> has the columns of a \<open>groupby\<close> result, so
  line 83, \<open>pop_y["indicator_name_norm"]\<close>, raises \<open>KeyError\<close>.  On the \<open>YEAR\<close> branch
  \<open>dengue_y\<close> has no column \<open>year\<close>, so the key of line 91 stands.
\<close>

fun align :: "chosen \<Rightarrow> error + feature_row list" where
  "align (Monthly dm pm) = Inl (KeyError ''indicator_name_norm'')"
| "align (Yearly dy py) =
     (let dengue_g = groupby_agg time_key_of numeric_value pd_sum dy;
          pop_g = groupby_agg time_key_of population_of pd_mean py
      in case join_rows (merge_left dengue_g pop_g) of
           Inl e \<Rightarrow> Inl e
         | Inr rows \<Rightarrow> Inr (lag_ma rows))"

definition prepare_data :: "indicator_row list \<Rightarrow> indicator_row list \<Rightarrow> error + feature_row list" where
  "prepare_data dengue pop =
     (case choose_time_dim dengue pop of Inl e \<Rightarrow> Inl e | Inr c \<Rightarrow> align c)"

subsection \<open>Notions used in the statements, and sample inputs\<close>

text \<open>The rows of one country in the feature table, in table order.\<close>

definition country_rows :: "string \<Rightarrow> feature_row list \<Rightarrow> feature_row list" where
  "country_rows C T = filter (\<lambda>r. f_spatial_dim r = C) T"

text \<open>The four key columns of a row of the feature table.\<close>

definition row_key :: "'a joined_row_scheme \<Rightarrow> time_key" where
  "row_key r = (f_spatial_dim r, f_spatial_dim_en r, f_spatial_dim_es r, f_time_dim r)"



definition year_rows :: "indicator_row list \<Rightarrow> indicator_row list" where
  "year_rows rows = filter (\<lambda>r. time_dim_type r = ''YEAR'') rows"

text \<open>A dengue row and a population row of a country, with English name \<open>en\<close>.\<close>

definition dengue_row :: "string \<Rightarrow> string \<Rightarrow> string \<Rightarrow> string \<Rightarrow> real \<Rightarrow> indicator_row" where
  "dengue_row c en ty t v =
     \<lparr>spatial_dim = Some c, spatial_dim_en = Some en, spatial_dim_es = Some en,
      time_dim_type = ty, time_dim = Some t, numeric_value = Some v,
      indicator_name_norm = ''dengue cases'', nombre_indicador_norm = ''casos de dengue''\<rparr>"

definition pop_row :: "string \<Rightarrow> string \<Rightarrow> string \<Rightarrow> string \<Rightarrow> real \<Rightarrow> indicator_row" where
  "pop_row c en ty t v =
     \<lparr>spatial_dim = Some c, spatial_dim_en = Some en, spatial_dim_es = Some en,
      time_dim_type = ty, time_dim = Some t, numeric_value = Some v,
      indicator_name_norm = ''total population'', nombre_indicador_norm = ''poblacion total''\<rparr>"

definition feature ::
  "string \<Rightarrow> string \<Rightarrow> string \<Rightarrow> int \<Rightarrow> real \<Rightarrow> real option \<Rightarrow> real option \<Rightarrow>
   real option \<Rightarrow> real option \<Rightarrow> real option \<Rightarrow> feature_row" where
  "feature c en t y cases p r l1 l2 m =
     \<lparr>f_spatial_dim = c, f_spatial_dim_en = en, f_spatial_dim_es = en, f_time_dim = t,
      dengue_cases = cases, population = p, year = y, cases_per_100k = r,
      lag_cases_1 = l1, lag_cases_2 = l2, ma3_cases = m\<rparr>"

text \<open>The scenario of the specification: three consecutive years of one country.\<close>

definition abc_dengue :: "indicator_row list" where
  "abc_dengue = [dengue_row ''ABC'' ''Abc'' ''YEAR'' ''2021'' 20,
                 dengue_row ''ABC'' ''Abc'' ''YEAR'' ''2020'' 10,
                 dengue_row ''ABC'' ''Abc'' ''YEAR'' ''2022'' 15]"

definition abc_pop :: "indicator_row list" where
  "abc_pop = [pop_row ''ABC'' ''Abc'' ''YEAR'' ''2020'' 100000,
              pop_row ''ABC'' ''Abc'' ''YEAR'' ''2021'' 100000,
              pop_row ''ABC'' ''Abc'' ''YEAR'' ''2022'' 100000]"

definition abc_table :: "feature_row list" where
  "abc_table =
     [feature ''ABC'' ''Abc'' ''2020'' 2020 10 (Some 100000) (Some 10) None None (Some 10),
      feature ''ABC'' ''Abc'' ''2021'' 2021 20 (Some 100000) (Some 20) (Some 10) None (Some 15),
      feature ''ABC'' ''Abc'' ''2022'' 2022 15 (Some 100000) (Some 15) (Some 20) (Some 10) (Some 15)]"

text \<open>A country observed in 2020 and 2022 only.\<close>

definition gap_dengue :: "indicator_row list" where
  "gap_dengue = [dengue_row ''ABC'' ''Abc'' ''YEAR'' ''2020'' 10,
                 dengue_row ''ABC'' ''Abc'' ''YEAR'' ''2022'' 15]"

definition gap_pop :: "indicator_row list" where
  "gap_pop = [pop_row ''ABC'' ''Abc'' ''YEAR'' ''2020'' 100000,
              pop_row ''ABC'' ''Abc'' ''YEAR'' ''2022'' 100000]"

definition gap_table :: "feature_row list" where
  "gap_table =
     [feature ''ABC'' ''Abc'' ''2020'' 2020 10 (Some 100000) (Some 10) None None (Some 10),
      feature ''ABC'' ''Abc'' ''2022'' 2022 15 (Some 100000) (Some 15) (Some 10) None
        (Some (25 / 2))]"




text \<open>Population with a zero, a missing and a thousands-unit value.\<close>

definition mixed_pop :: "indicator_row list" where
  "mixed_pop = [pop_row ''ABC'' ''Abc'' ''YEAR'' ''2020'' 0,
                (pop_row ''ABC'' ''Abc'' ''YEAR'' ''2022'' 50)
                  \<lparr>indicator_name_norm := ''population (thousands)''\<rparr>]"

definition mixed_table :: "feature_row list" where
  "mixed_table =
     [feature ''ABC'' ''Abc'' ''2020'' 2020 10 (Some 0) None None None (Some 10),
      feature ''ABC'' ''Abc'' ''2021'' 2021 20 None None (Some 10) None (Some 15),
      feature ''ABC'' ''Abc'' ''2022'' 2022 15 (Some 50000) (Some 30) (Some 20) (Some 10) (Some 15)]"




section \<open>The dashboard's recalculation: \<open>src/app.py\<close>, lines 140 to 172\<close>

text \<open>
  A decoded JSON value.  An object is a Python \<open>dict\<close>, listed with each key once.
\<close>

datatype json =
    JNull
  | JBool bool
  | JNum real
  | JStr string
  | JArr "json list"
  | JObj "(string \<times> json) list"

text \<open>
  What lines 157 to 159 give: \<open>requests.post\<close> raises on a transport failure or a
  timeout, \<open>raise_for_status\<close> raises on an HTTP error status, \<open>resp.json()\<close> raises on a
  body that is not JSON, and otherwise returns the decoded body.
\<close>

datatype response = ConnectionFailed | TimedOut | HttpError | NotJson | Body json

text \<open>
  What the handler shows: \<open>st.success\<close> (line 168), \<open>st.error\<close> of line 164, or \<open>st.error\<close>
  of the \<open>except\<close> clause (line 172).
\<close>

datatype outcome = Updated | MissingRiskScore | ApiError

text \<open>
  A frame of the dashboard: each row has its index label, the columns of the feature
  table and the \<open>risk_score\<close> cell (\<open>None\<close> is NaN).  \<open>pd.read_csv\<close> labels the rows
  \<open>0, 1, 2, \<dots>\<close>; line 140, \<open>df[df["year"] == year].copy()\<close>, keeps the labels of the rows
  it selects.
\<close>

type_synonym frame = "(nat \<times> feature_row \<times> json option) list"

definition read_csv :: "(feature_row \<times> json option) list \<Rightarrow> frame" where
  "read_csv rows = zip [0..<length rows] rows"

definition select_year :: "int \<Rightarrow> frame \<Rightarrow> frame" where
  "select_year y df = filter (\<lambda>(l, r, s). year r = y) df"

text \<open>Lines 150 to 154: the four features of every row, nulls replaced by 0, in row order.\<close>

definition fillna0 :: "real option \<Rightarrow> real" where
  "fillna0 v = (case v of None \<Rightarrow> 0 | Some x \<Rightarrow> x)"

definition payload :: "frame \<Rightarrow> (real \<times> real \<times> real \<times> real) list" where
  "payload dfy = map (\<lambda>(l, r, s). (fillna0 (cases_per_100k r), fillna0 (lag_cases_1 r),
                                     fillna0 (lag_cases_2 r), fillna0 (ma3_cases r))) dfy"

text \<open>Lines 161 and 162: a body that is a string is decoded once more; decoding may raise.\<close>

definition decode :: "(string \<Rightarrow> json option) \<Rightarrow> json \<Rightarrow> json option" where
  "decode loads data = (case data of JStr s \<Rightarrow> loads s | _ \<Rightarrow> Some data)"

text \<open>
  Line 163, \<open>"risk_score" in data\<close>: key membership for a dict, element membership for a
  list, substring test for a string, \<open>TypeError\<close> (here \<open>None\<close>) for anything else.
\<close>

fun has_risk_score :: "json \<Rightarrow> bool option" where
  "has_risk_score (JObj kvs) = Some (''risk_score'' \<in> set (map fst kvs))"
| "has_risk_score (JArr xs) = Some (JStr ''risk_score'' \<in> set xs)"
| "has_risk_score (JStr s) = Some (str_contains ''risk_score'' s)"
| "has_risk_score v = None"

text \<open>Line 167, \<open>data["risk_score"]\<close>: defined for a dict, \<open>TypeError\<close> for a list or a string.\<close>

fun get_risk_score :: "json \<Rightarrow> json option" where
  "get_risk_score (JObj kvs) = map_of kvs ''risk_score''"
| "get_risk_score v = None"

text \<open>
  \<open>pd.Series(v)\<close> read at an integer label.  A list has the labels \<open>0, 1, 2, \<dots>\<close> of its
  positions, a scalar has the single label 0, a dict is labelled by its keys, which
  are strings, and \<open>None\<close> gives the empty series.  A JSON null is NaN.
\<close>

fun cell :: "json \<Rightarrow> json option" where
  "cell JNull = None"
| "cell v = Some v"

fun pd_Series :: "json \<Rightarrow> nat \<Rightarrow> json option" where
  "pd_Series (JArr xs) l = (if l < length xs then cell (xs ! l) else None)"
| "pd_Series (JObj kvs) l = None"
| "pd_Series JNull l = None"
| "pd_Series v l = (if l = 0 then Some v else None)"

text \<open>
  Line 167, \<open>dfy["risk_score"] = pd.Series(\<dots>)\<close>: assigning a series to a column aligns
  the series with the frame on the index labels; a row whose label the series lacks
  receives NaN.
\<close>

definition set_risk_score :: "json \<Rightarrow> frame \<Rightarrow> frame" where
  "set_risk_score v dfy = map (\<lambda>(l, r, s). (l, r, pd_Series v l)) dfy"

text \<open>Lines 156 to 172: the handler, as the message shown and the frame afterwards.\<close>

definition recalculate ::
  "(string \<Rightarrow> json option) \<Rightarrow> response \<Rightarrow> frame \<Rightarrow> outcome \<times> frame" where
  "recalculate loads resp dfy =
     (case resp of
        Body body \<Rightarrow>
          (case decode loads body of
             None \<Rightarrow> (ApiError, dfy)
           | Some data \<Rightarrow>
               (case has_risk_score data of
                  None \<Rightarrow> (ApiError, dfy)
                | Some False \<Rightarrow> (MissingRiskScore, dfy)
                | Some True \<Rightarrow>
                    (case get_risk_score data of
                       None \<Rightarrow> (ApiError, dfy)
                     | Some v \<Rightarrow> (Updated, set_risk_score v dfy))))
      | _ \<Rightarrow> (ApiError, dfy))"

text \<open>The \<open>risk_score\<close> column of a frame.\<close>

definition risk_scores :: "frame \<Rightarrow> json option list" where
  "risk_scores dfy = map (\<lambda>(l, r, s). s) dfy"

subsection \<open>Sample table of the dashboard\<close>

text \<open>Two countries in 2020 and 2021, in the order of the scored CSV.\<close>

definition scored_csv :: "(feature_row \<times> json option) list" where
  "scored_csv =
     [(feature ''ARG'' ''Argentina'' ''2020'' 2020 10 None None None None (Some 10), Some (JNum 1)),
      (feature ''ARG'' ''Argentina'' ''2021'' 2021 20 None None (Some 10) None (Some 15), Some (JNum 2)),
      (feature ''BRA'' ''Brazil'' ''2020'' 2020 30 None None None None (Some 30), Some (JNum 3)),
      (feature ''BRA'' ''Brazil'' ''2021'' 2021 50 None None (Some 30) None (Some 40), Some (JNum 4))]"

definition two_scores :: json where
  "two_scores = JObj [(''risk_score'', JArr [JNum 10, JNum 20])]"

definition no_scores :: json where
  "no_scores = JObj [(''message'', JStr ''internal error'')]"

text \<open>A decoder that knows the texts of the two sample bodies.\<close>

definition loads_sample :: "string \<Rightarrow> json option" where
  "loads_sample s =
     (if s = ''{\"risk_score\": [10, 20]}'' then Some two_scores
      else if s = ''{\"message\": \"internal error\"}'' then Some no_scores
      else None)"

section \<open>Properties of the scorer\<close>

lemma epsilon_pos: "0 < epsilon"
  by (simp add: epsilon_def)

lemma raw_between:
  assumes "r \<in> set raw"
  shows "Min (set raw) \<le> r" and "r \<le> Max (set raw)"
  using assms by simp_all

lemma rescale_bounds:
  fixes r lo hi :: real
  assumes "lo \<le> r" "r \<le> hi"
  shows "0 \<le> 100 * (r - lo) / (hi - lo + epsilon)"
    and "100 * (r - lo) / (hi - lo + epsilon) < 100"
proof -
  have d: "0 < hi - lo + epsilon"
    using assms epsilon_pos by linarith
  show "0 \<le> 100 * (r - lo) / (hi - lo + epsilon)"
    using assms d by simp
  have "r - lo < hi - lo + epsilon"
    using assms epsilon_pos by linarith
  then have "(r - lo) / (hi - lo + epsilon) < 1"
    using d by simp
  then have "100 * ((r - lo) / (hi - lo + epsilon)) < 100 * 1"
    by (rule mult_strict_left_mono) simp
  then show "100 * (r - lo) / (hi - lo + epsilon) < 100"
    by (simp only: times_divide_eq_right mult_1_right)
qed

lemma rescale_max:
  fixes lo hi :: real
  assumes "lo \<le> hi"
  shows "100 * (hi - lo) / (hi - lo + epsilon) = 100 - 100 * epsilon / (hi - lo + epsilon)"
proof -
  have d: "hi - lo + epsilon \<noteq> 0"
    using assms epsilon_pos by linarith
  then show ?thesis
    by (simp add: field_simps)
qed

text \<open>
  C2 (as stated, refuted).  The claim says that the row with the maximal raw magnitude
  of every non-empty batch is scored 100 within epsilon.  In a batch of three equal
  magnitudes every row is a maximal one and is scored 0.
\<close>

theorem risk_score_max_not_100:
  "\<not> (\<forall>raw scores i. risk_score raw = Inr scores \<longrightarrow> i < length raw \<longrightarrow>
         raw ! i = Max (set raw) \<longrightarrow> \<bar>scores ! i - 100\<bar> \<le> epsilon)"
proof
  assume a: "\<forall>raw scores i. risk_score raw = Inr scores \<longrightarrow> i < length raw \<longrightarrow>
         raw ! i = Max (set raw) \<longrightarrow> \<bar>scores ! i - 100\<bar> \<le> epsilon"
  have "risk_score [1 / 2, 1 / 2, 1 / 2] = Inr [0, 0, 0]"
    by (simp add: risk_score_def)
  moreover have "(0::nat) < length [1 / 2, 1 / 2, 1 / 2 :: real]"
    "[1 / 2, 1 / 2, 1 / 2 :: real] ! 0 = Max (set [1 / 2, 1 / 2, 1 / 2])"
    by simp_all
  ultimately have "\<bar>[0, 0, 0 :: real] ! 0 - 100\<bar> \<le> epsilon"
    using a by blast
  then show False
    by (simp add: epsilon_def)
qed

text \<open>
  C2 (amended).  For every non-empty batch the scorer returns one score per row; every
  score lies in the interval from 0 (included) to 100 (excluded); a row with the minimal
  raw magnitude is scored exactly 0; a row with the maximal raw magnitude is scored
  \<open>100 * (max - min) / (max - min + epsilon)\<close>, which is \<open>100 - 100 * epsilon / (max - min + epsilon)\<close>,
  and that is 0 when all magnitudes of the batch are equal.
\<close>

theorem risk_score_range:
  assumes "raw \<noteq> []"
  shows "\<exists>scores. risk_score raw = Inr scores \<and> length scores = length raw \<and>
           (\<forall>i<length raw.
              scores ! i = 100 * (raw ! i - Min (set raw)) / (Max (set raw) - Min (set raw) + epsilon) \<and>
              0 \<le> scores ! i \<and> scores ! i < 100 \<and>
              (raw ! i = Min (set raw) \<longrightarrow> scores ! i = 0) \<and>
              (raw ! i = Max (set raw) \<longrightarrow>
                 scores ! i = 100 - 100 * epsilon / (Max (set raw) - Min (set raw) + epsilon) \<and>
                 (Max (set raw) = Min (set raw) \<longrightarrow> scores ! i = 0)))"
proof -
  let ?lo = "Min (set raw)" and ?hi = "Max (set raw)"
  let ?f = "\<lambda>r. 100 * (r - ?lo) / (?hi - ?lo + epsilon)"
  have r: "risk_score raw = Inr (map ?f raw)"
    using assms by (simp add: risk_score_def)
  have lohi: "?lo \<le> ?hi"
    using assms by simp
  have "\<forall>i<length raw. map ?f raw ! i = ?f (raw ! i) \<and> 0 \<le> map ?f raw ! i \<and> map ?f raw ! i < 100 \<and>
          (raw ! i = ?lo \<longrightarrow> map ?f raw ! i = 0) \<and>
          (raw ! i = ?hi \<longrightarrow> map ?f raw ! i = 100 - 100 * epsilon / (?hi - ?lo + epsilon) \<and>
             (?hi = ?lo \<longrightarrow> map ?f raw ! i = 0))"
  proof (intro allI impI)
    fix i assume i: "i < length raw"
    then have m: "raw ! i \<in> set raw"
      by simp
    have b: "?lo \<le> raw ! i" "raw ! i \<le> ?hi"
      using raw_between [OF m] by simp_all
    have e: "map ?f raw ! i = ?f (raw ! i)"
      using i by simp
    have "0 \<le> ?f (raw ! i)" "?f (raw ! i) < 100"
      using rescale_bounds [OF b] by simp_all
    moreover have "raw ! i = ?lo \<longrightarrow> ?f (raw ! i) = 0"
      by simp
    moreover have "raw ! i = ?hi \<longrightarrow> ?f (raw ! i) = 100 - 100 * epsilon / (?hi - ?lo + epsilon)"
      using rescale_max [OF lohi] by simp
    moreover have "raw ! i = ?hi \<longrightarrow> ?hi = ?lo \<longrightarrow> ?f (raw ! i) = 0"
      by simp
    ultimately show "map ?f raw ! i = ?f (raw ! i) \<and> 0 \<le> map ?f raw ! i \<and> map ?f raw ! i < 100 \<and>
          (raw ! i = ?lo \<longrightarrow> map ?f raw ! i = 0) \<and>
          (raw ! i = ?hi \<longrightarrow> map ?f raw ! i = 100 - 100 * epsilon / (?hi - ?lo + epsilon) \<and>
             (?hi = ?lo \<longrightarrow> map ?f raw ! i = 0))"
      unfolding e by blast
  qed
  with r show ?thesis
    by simp
qed

theorem risk_score_range_witness:
  "risk_score [5, 7, 6] = Inr [0, 2000000000 / 2000000001 * 100, 1000000000 / 2000000001 * 100]"
  using risk_score_range [of "[5, 7, 6]"]
  by (simp add: risk_score_def epsilon_def)

section \<open>Properties of the library operations\<close>

lemma groupby_agg_keys:
  "map fst (groupby_agg key col agg rows) = sort (remdups (List.map_filter key rows))"
  by (simp add: groupby_agg_def comp_def)

lemma groupby_agg_distinct: "distinct (map fst (groupby_agg key col agg rows))"
  by (simp add: groupby_agg_keys)

lemma set_map_filter_key: "set (List.map_filter key rows) = {k. \<exists>r\<in>set rows. key r = Some k}"
  by (force simp: List.map_filter_def)

lemma groupby_agg_key_set:
  "fst ` set (groupby_agg key col agg rows) = {k. \<exists>r\<in>set rows. key r = Some k}"
proof -
  have "fst ` set (groupby_agg key col agg rows) = set (map fst (groupby_agg key col agg rows))"
    by simp
  also have "\<dots> = set (List.map_filter key rows)"
    by (simp only: groupby_agg_keys set_sort set_remdups)
  finally show ?thesis
    by (simp only: set_map_filter_key)
qed

lemma groupby_agg_value:
  assumes "(k, v) \<in> set (groupby_agg key col agg rows)"
  shows "v = agg (map col (filter (\<lambda>r. key r = Some k) rows))"
  using assms by (auto simp: groupby_agg_def)

lemma filter_key_distinct:
  assumes "distinct (map fst right)"
  shows "filter (\<lambda>(k', b). k' = k) right = [] \<or> (\<exists>b. filter (\<lambda>(k', b). k' = k) right = [(k, b)])"
  using assms
proof (induction right)
  case Nil
  then show ?case by simp
next
  case (Cons x right)
  obtain k' b where x: "x = (k', b)"
    by (cases x)
  show ?case
  proof (cases "k' = k")
    case True
    then have "k \<notin> fst ` set right"
      using Cons.prems x by simp
    then have "filter (\<lambda>(k', b). k' = k) right = []"
      by (force simp: filter_empty_conv)
    then show ?thesis
      using True x by simp
  next
    case False
    then show ?thesis
      using Cons x by simp
  qed
qed

lemma merge_left_keys:
  assumes "distinct (map fst right)"
  shows "map fst (merge_left left right) = map fst left"
proof (induction left)
  case Nil
  then show ?case by (simp add: merge_left_def)
next
  case (Cons x left)
  obtain k a where x: "x = (k, a)"
    by (cases x)
  have t: "merge_left (x # left) right =
      (case filter (\<lambda>(k', b). k' = k) right of [] \<Rightarrow> [(k, a, None)]
       | ms \<Rightarrow> map (\<lambda>(k', b). (k, a, b)) ms) @ merge_left left right"
    by (simp add: merge_left_def x)
  from filter_key_distinct [OF assms, of k]
  have "map fst (case filter (\<lambda>(k', b). k' = k) right of [] \<Rightarrow> [(k, a, None)]
       | ms \<Rightarrow> map (\<lambda>(k', b). (k, a, b)) ms) = [k]"
    by auto
  then show ?case
    using Cons x t by simp
qed

lemma merge_left_entry:
  assumes "(k, a, p) \<in> set (merge_left left right)"
  shows "(k, a) \<in> set left"
    and "p = None \<and> k \<notin> fst ` set right \<or> (k, p) \<in> set right"
proof -
  from assms obtain k0 a0 where m: "(k0, a0) \<in> set left"
    and e: "(k, a, p) \<in> set (case filter (\<lambda>(k', b). k' = k0) right of [] \<Rightarrow> [(k0, a0, None)]
       | ms \<Rightarrow> map (\<lambda>(k', b). (k0, a0, b)) ms)"
    by (auto simp: merge_left_def)
  show "(k, a) \<in> set left"
    using m e by (auto split: list.splits)
  show "p = None \<and> k \<notin> fst ` set right \<or> (k, p) \<in> set right"
  proof (cases "filter (\<lambda>(k', b). k' = k0) right")
    case Nil
    then have "k0 \<notin> fst ` set right"
      by (auto simp: filter_empty_conv)
    then show ?thesis
      using e Nil by simp
  next
    case (Cons y ys)
    then have "(k, a, p) \<in> (\<lambda>(k', b). (k0, a0, b)) ` set (filter (\<lambda>(k', b). k' = k0) right)"
      using e by simp
    then show ?thesis
      by auto
  qed
qed

lemma shift_nth:
  assumes "j < length s"
  shows "shift n s ! j = (if j < n then None else Some (s ! (j - n)))"
proof (cases "j < n")
  case True
  then have "j < min n (length s)"
    using assms by simp
  then show ?thesis
    using True by (simp add: shift_def nth_append)
next
  case False
  then have "\<not> j < min n (length s)" "j - min n (length s) = j - n" "j - n < length s - n"
    using assms by auto
  then show ?thesis
    using False assms by (simp add: shift_def nth_append)
qed

lemma length_shift: "length (shift n s) = length s"
  by (simp add: shift_def)

lemma length_rolling_mean: "length (rolling_mean w mp s) = length s"
  by (simp add: rolling_mean_def)






lemma filter_nth_position:
  assumes "i < length ys" "P (ys ! i)"
  shows "filter P ys ! length (filter P (take i ys)) = ys ! i"
proof -
  have "ys = take i ys @ ys ! i # drop (Suc i) ys"
    using assms(1) by (simp add: id_take_nth_drop)
  then have "filter P ys = filter P (take i ys) @ ys ! i # filter P (drop (Suc i) ys)"
    using assms(2) by (metis filter.simps(2) filter_append)
  then show ?thesis
    by (simp add: nth_append)
qed

lemma filter_nth_index:
  assumes "j < length (filter P ys)"
  shows "\<exists>i<length ys. P (ys ! i) \<and> length (filter P (take i ys)) = j"
  using assms
proof (induction ys arbitrary: j rule: rev_induct)
  case Nil
  then show ?case by simp
next
  case (snoc y ys)
  show ?case
  proof (cases "j < length (filter P ys)")
    case True
    from snoc.IH [OF True] obtain i where "i < length ys" "P (ys ! i)"
      "length (filter P (take i ys)) = j"
      by blast
    then show ?thesis
      by (intro exI [of _ i]) (simp add: nth_append)
  next
    case False
    then have "P y" "j = length (filter P ys)"
      using snoc.prems by (auto split: if_splits)
    then show ?thesis
      by (intro exI [of _ "length ys"]) simp
  qed
qed

section \<open>Properties of the aligner's steps\<close>

lemma join_row_fields:
  assumes "join_row m = Inr r"
  shows "(f_spatial_dim r, f_spatial_dim_en r, f_spatial_dim_es r, f_time_dim r) = fst m"
    and "dengue_cases r = fst (snd m)"
    and "population r = snd (snd m)"
    and "cases_per_100k r = rate (dengue_cases r) (population r)"
    and "year_of (Some (f_time_dim r)) = Some (year r)"
  using assms by (auto simp: join_row_def split: prod.splits option.splits)

lemma join_rows_all2:
  assumes "join_rows ms = Inr rows"
  shows "list_all2 (\<lambda>m r. join_row m = Inr r) ms rows"
  using assms
proof (induction ms arbitrary: rows)
  case Nil
  then show ?case by simp
next
  case (Cons m ms)
  then show ?case
    by (auto split: sum.splits)
qed

lemma truncate_with_features: "joined_row.truncate (with_features r l1 l2 m) = r"
  by (simp add: with_features_def joined_row.truncate_def)

lemma spatial_dim_truncate: "f_spatial_dim (joined_row.truncate t) = f_spatial_dim t"
  by (simp add: joined_row.truncate_def)

lemma length_lag_ma: "length (lag_ma rows) = length rows"
  by (simp add: lag_ma_def Let_def)

lemma truncate_lag_ma:
  "map joined_row.truncate (lag_ma rows) = sort_key (\<lambda>r. (f_spatial_dim r, year r)) rows"
  by (rule nth_equalityI) (simp_all add: lag_ma_def Let_def truncate_with_features)

lemma lag_ma_nth:
  assumes "i < length rows"
  shows "lag_ma rows ! i =
     (let df_yr = sort_key (\<lambda>r. (f_spatial_dim r, year r)) rows
      in with_features (df_yr ! i)
           (group_transform (shift 1) df_yr ! i)
           (group_transform (shift 2) df_yr ! i)
           (group_transform (rolling_mean 3 1) df_yr ! i))"
  using assms by (simp add: lag_ma_def Let_def)

lemma group_transform_nth:
  assumes "i < length rows"
  shows "group_transform f rows ! i =
     f (map dengue_cases (filter (\<lambda>h. f_spatial_dim h = f_spatial_dim (rows ! i)) rows))
       ! length (filter (\<lambda>h. f_spatial_dim h = f_spatial_dim (rows ! i)) (take i rows))"
  using assms by (simp add: group_transform_def)

lemma filter_truncate:
  "map joined_row.truncate (filter (\<lambda>t. f_spatial_dim t = C) ts) =
     filter (\<lambda>r. f_spatial_dim r = C) (map joined_row.truncate ts)"
  by (simp add: filter_map comp_def spatial_dim_truncate)

lemma country_rows_lag_ma:
  fixes rows :: "joined_row list" and C :: string
  defines "df \<equiv> sort_key (\<lambda>r. (f_spatial_dim r, year r)) rows"
  defines "xs \<equiv> filter (\<lambda>r. f_spatial_dim r = C) df"
  shows "filter (\<lambda>t. f_spatial_dim t = C) (lag_ma rows) =
     map (\<lambda>j. with_features (xs ! j)
                 (shift 1 (map dengue_cases xs) ! j)
                 (shift 2 (map dengue_cases xs) ! j)
                 (rolling_mean 3 1 (map dengue_cases xs) ! j))
         [0..<length xs]"
proof (rule nth_equalityI)
  let ?T = "lag_ma rows"
  let ?P = "\<lambda>t::feature_row. f_spatial_dim t = C"
  let ?Q = "\<lambda>r::joined_row. f_spatial_dim r = C"
  have tr: "map joined_row.truncate ?T = df"
    by (simp add: truncate_lag_ma df_def)
  have ft: "map joined_row.truncate (filter ?P ?T) = xs"
    by (simp only: filter_truncate tr xs_def)
  then have len: "length (filter ?P ?T) = length xs"
    by (metis length_map)
  then show "length (filter ?P ?T) = length (map (\<lambda>j. with_features (xs ! j)
                 (shift 1 (map dengue_cases xs) ! j)
                 (shift 2 (map dengue_cases xs) ! j)
                 (rolling_mean 3 1 (map dengue_cases xs) ! j)) [0..<length xs])"
    by simp
  fix j assume "j < length (filter ?P ?T)"
  then have j: "j < length xs"
    using len by simp
  have ldf: "length df = length rows"
    by (simp add: df_def)
  from filter_nth_index [of j ?Q df] j obtain i where
    i: "i < length df" and Qi: "f_spatial_dim (df ! i) = C"
    and pos: "length (filter ?Q (take i df)) = j"
    unfolding xs_def by blast
  have iT: "i < length ?T"
    using i ldf by (simp add: length_lag_ma)
  have Ti: "?T ! i = with_features (df ! i)
           (group_transform (shift 1) df ! i)
           (group_transform (shift 2) df ! i)
           (group_transform (rolling_mean 3 1) df ! i)"
    using i ldf by (simp add: lag_ma_nth df_def Let_def)
  have PTi: "?P (?T ! i)"
    unfolding Ti using Qi by (simp add: with_features_def)
  have "map joined_row.truncate (filter ?P (take i ?T)) = filter ?Q (take i df)"
    by (simp only: filter_truncate take_map [symmetric] tr)
  then have posT: "length (filter ?P (take i ?T)) = j"
    using pos by (metis length_map)
  have a: "filter ?P ?T ! j = ?T ! i"
    using filter_nth_position [of i ?T ?P, OF iT PTi] posT by simp
  have b: "xs ! j = df ! i"
    using filter_nth_position [of i df ?Q, OF i Qi] pos by (simp add: xs_def)
  have g: "group_transform f df ! i = f (map dengue_cases xs) ! j" for f :: "real list \<Rightarrow> real option list"
    using group_transform_nth [OF i, of f] Qi pos by (simp add: xs_def)
  have "filter ?P ?T ! j = with_features (xs ! j)
                 (shift 1 (map dengue_cases xs) ! j)
                 (shift 2 (map dengue_cases xs) ! j)
                 (rolling_mean 3 1 (map dengue_cases xs) ! j)"
    by (simp only: a Ti g b)
  then show "filter ?P ?T ! j = map (\<lambda>j. with_features (xs ! j)
                 (shift 1 (map dengue_cases xs) ! j)
                 (shift 2 (map dengue_cases xs) ! j)
                 (rolling_mean 3 1 (map dengue_cases xs) ! j)) [0..<length xs] ! j"
    using j by simp
qed

lemma sorted_years_of_country:
  fixes rows :: "joined_row list"
  shows "sorted (map year (filter (\<lambda>r. f_spatial_dim r = C)
                             (sort_key (\<lambda>r. (f_spatial_dim r, year r)) rows)))"
proof -
  let ?k = "\<lambda>r::joined_row. (f_spatial_dim r, year r)"
  let ?xs = "filter (\<lambda>r. f_spatial_dim r = C) (sort_key ?k rows)"
  have "sorted (map ?k (sort_key ?k rows))"
    by (rule sorted_sort_key)
  then have "sorted (map ?k ?xs)"
    by (rule sorted_filter)
  then have "sorted_wrt (\<lambda>a b. ?k a \<le> ?k b) ?xs"
    by (simp add: sorted_map)
  then have "sorted_wrt (\<lambda>a b. year a \<le> year b) ?xs"
  proof (rule sorted_wrt_mono_rel [rotated])
    fix a b assume "a \<in> set ?xs" "b \<in> set ?xs" "?k a \<le> ?k b"
    then show "year a \<le> year b"
      by (simp add: less_eq_prod_def)
  qed
  then show ?thesis
    by (simp add: sorted_map)
qed

section \<open>Properties of the feature table\<close>

lemma prepare_data_Inr:
  assumes "prepare_data dengue pop = Inr T"
  obtains rows where "''YEAR'' \<in> set (map time_dim_type dengue)"
    and "join_rows (merge_left (groupby_agg time_key_of numeric_value pd_sum (year_rows dengue))
                               (groupby_agg time_key_of population_of pd_mean (year_rows pop)))
         = Inr rows"
    and "T = lag_ma rows"
proof (cases "''YEAR'' \<in> set (map time_dim_type dengue)")
  case True
  then have c: "choose_time_dim dengue pop = Inr (Yearly (year_rows dengue) (year_rows pop))"
    by (simp add: choose_time_dim_def year_rows_def)
  with assms have "align (Yearly (year_rows dengue) (year_rows pop)) = Inr T"
    by (simp add: prepare_data_def)
  then show ?thesis
    using True that by (auto simp: Let_def split: sum.splits)
next
  case False
  have "align c \<noteq> Inr T" if "choose_time_dim dengue pop = Inr c" for c
  proof (cases c)
    case (Yearly dy py)
    then show ?thesis
      using that False by (auto simp: choose_time_dim_def split: if_splits sum.splits)
  next
    case (Monthly dm pm)
    then show ?thesis by simp
  qed
  then have False
    using assms by (auto simp: prepare_data_def split: sum.splits)
  then show ?thesis ..
qed

lemma country_rows_prepare:
  assumes "prepare_data dengue pop = Inr T"
  obtains xs :: "joined_row list" where
    "country_rows C T =
       map (\<lambda>j. with_features (xs ! j)
                   (shift 1 (map dengue_cases xs) ! j)
                   (shift 2 (map dengue_cases xs) ! j)
                   (rolling_mean 3 1 (map dengue_cases xs) ! j))
           [0..<length xs]"
    and "sorted (map year xs)"
proof -
  from prepare_data_Inr [OF assms] obtain rows where T: "T = lag_ma rows"
    by blast
  let ?xs = "filter (\<lambda>r. f_spatial_dim r = C) (sort_key (\<lambda>r. (f_spatial_dim r, year r)) rows)"
  have "country_rows C T =
       map (\<lambda>j. with_features (?xs ! j)
                   (shift 1 (map dengue_cases ?xs) ! j)
                   (shift 2 (map dengue_cases ?xs) ! j)
                   (rolling_mean 3 1 (map dengue_cases ?xs) ! j))
           [0..<length ?xs]"
    unfolding country_rows_def T by (rule country_rows_lag_ma)
  moreover have "sorted (map year ?xs)"
    by (rule sorted_years_of_country)
  ultimately show ?thesis
    using that by blast
qed

lemma country_rows_columns:
  assumes "prepare_data dengue pop = Inr T"
  shows "sorted (map year (country_rows C T))"
    and "\<forall>j<length (country_rows C T).
           lag_cases_1 (country_rows C T ! j) = shift 1 (map dengue_cases (country_rows C T)) ! j \<and>
           lag_cases_2 (country_rows C T ! j) = shift 2 (map dengue_cases (country_rows C T)) ! j \<and>
           ma3_cases (country_rows C T ! j) = rolling_mean 3 1 (map dengue_cases (country_rows C T)) ! j"
proof -
  from country_rows_prepare [OF assms, of C] obtain xs :: "joined_row list" where
    cs: "country_rows C T =
       map (\<lambda>j. with_features (xs ! j)
                   (shift 1 (map dengue_cases xs) ! j)
                   (shift 2 (map dengue_cases xs) ! j)
                   (rolling_mean 3 1 (map dengue_cases xs) ! j))
           [0..<length xs]"
    and srt: "sorted (map year xs)"
    by blast
  have len: "length (country_rows C T) = length xs"
    by (simp add: cs)
  have cases: "map dengue_cases (country_rows C T) = map dengue_cases xs"
    by (rule nth_equalityI) (simp_all add: cs with_features_def)
  have years: "map year (country_rows C T) = map year xs"
    by (rule nth_equalityI) (simp_all add: cs with_features_def)
  show "sorted (map year (country_rows C T))"
    using srt by (simp only: years)
  show "\<forall>j<length (country_rows C T).
           lag_cases_1 (country_rows C T ! j) = shift 1 (map dengue_cases (country_rows C T)) ! j \<and>
           lag_cases_2 (country_rows C T ! j) = shift 2 (map dengue_cases (country_rows C T)) ! j \<and>
           ma3_cases (country_rows C T ! j) = rolling_mean 3 1 (map dengue_cases (country_rows C T)) ! j"
    unfolding cases len by (simp add: cs with_features_def)
qed

lemma adjacent_years:
  fixes ys :: "int list"
  assumes "sorted ys" "distinct ys" "i < length ys" "j < length ys" "ys ! j = ys ! i + 1"
  shows "j = Suc i"
proof -
  have s: "sorted_wrt (<) ys"
    using assms(1,2) by (simp add: strict_sorted_iff)
  have lt: "ys ! a < ys ! b" if "a < b" "b < length ys" for a b
    using s that by (simp add: sorted_wrt_iff_nth_less)
  have "i < j"
  proof (rule ccontr)
    assume "\<not> i < j"
    then have "j = i \<or> j < i" by auto
    then show False
      using lt [of j i] assms(3,5) by auto
  qed
  moreover have "\<not> Suc i < j"
  proof
    assume a: "Suc i < j"
    have "ys ! i < ys ! Suc i" "ys ! Suc i < ys ! j"
      using lt [of i "Suc i"] lt [of "Suc i" j] a assms(4) by simp_all
    then show False
      using assms(5) by simp
  qed
  ultimately show ?thesis by simp
qed

section \<open>Sample runs\<close>

lemma abc_run: "prepare_data abc_dengue abc_pop = Inr abc_table"
  by code_simp

lemma gap_run: "prepare_data gap_dengue gap_pop = Inr gap_table"
  by code_simp

section \<open>Lags and moving average\<close>

text \<open>
  C1 (as stated, refuted).  The claim says that \<open>lag_cases_1\<close> of a country at year Y is
  null whenever the country has no row at year Y - 1.  A country observed in 2020 and
  2022 only has, at 2022, the cases of 2020 as \<open>lag_cases_1\<close>.
\<close>

theorem lag_cases_1_gap_not_null:
  "prepare_data gap_dengue gap_pop = Inr gap_table \<and>
   (\<exists>r\<in>set gap_table. year r = 2022 \<and>
      (\<forall>r'\<in>set gap_table. f_spatial_dim r' = f_spatial_dim r \<longrightarrow> year r' \<noteq> year r - 1) \<and>
      lag_cases_1 r = Some 10)"
proof -
  have "prepare_data gap_dengue gap_pop = Inr gap_table"
    by (rule gap_run)
  moreover have "\<exists>r\<in>set gap_table. year r = 2022 \<and>
      (\<forall>r'\<in>set gap_table. f_spatial_dim r' = f_spatial_dim r \<longrightarrow> year r' \<noteq> year r - 1) \<and>
      lag_cases_1 r = Some 10"
    by (simp add: gap_table_def feature_def)
  ultimately show ?thesis ..
qed

text \<open>
  C1 (amended).  In every feature table the rows of a country C are in ascending order
  of year; \<open>lag_cases_1\<close> of the first of them is null, and \<open>lag_cases_1\<close> of every other
  one is \<open>dengue_cases\<close> of the row of C just before it, whatever the year of that row.
  Hence, when C has one row per year and the years Y - 1 and Y are both present,
  \<open>lag_cases_1\<close> at Y is \<open>dengue_cases\<close> at Y - 1.
\<close>

theorem lag_cases_1_previous_row:
  assumes "prepare_data dengue pop = Inr T"
  shows "sorted (map year (country_rows C T)) \<and>
    (\<forall>j<length (country_rows C T).
       lag_cases_1 (country_rows C T ! j) =
         (if j = 0 then None else Some (dengue_cases (country_rows C T ! (j - 1))))) \<and>
    (distinct (map year (country_rows C T)) \<longrightarrow>
       (\<forall>a\<in>set (country_rows C T). \<forall>b\<in>set (country_rows C T).
          year b = year a + 1 \<longrightarrow> lag_cases_1 b = Some (dengue_cases a)))"
proof -
  let ?cs = "country_rows C T"
  note cols = country_rows_columns [OF assms, of C]
  have lag: "lag_cases_1 (?cs ! j) = (if j = 0 then None else Some (dengue_cases (?cs ! (j - 1))))"
    if "j < length ?cs" for j
  proof -
    have "lag_cases_1 (?cs ! j) = shift 1 (map dengue_cases ?cs) ! j"
      using cols(2) that by blast
    also have "\<dots> = (if j < 1 then None else Some (map dengue_cases ?cs ! (j - 1)))"
      using that by (simp add: shift_nth)
    also have "\<dots> = (if j = 0 then None else Some (dengue_cases (?cs ! (j - 1))))"
      using that by simp
    finally show ?thesis .
  qed
  have adj: "lag_cases_1 b = Some (dengue_cases a)"
    if d: "distinct (map year ?cs)" and a: "a \<in> set ?cs" and b: "b \<in> set ?cs"
      and y: "year b = year a + 1" for a b
  proof -
    from a obtain i where i: "i < length ?cs" "?cs ! i = a"
      by (auto simp: in_set_conv_nth)
    from b obtain j where j: "j < length ?cs" "?cs ! j = b"
      by (auto simp: in_set_conv_nth)
    have "j = Suc i"
      using adjacent_years [OF cols(1) d, of i j] i j y by simp
    then show ?thesis
      using lag [OF j(1)] i j by simp
  qed
  show ?thesis
    using cols(1) lag adj by blast
qed

theorem lag_cases_1_previous_row_witness:
  "prepare_data abc_dengue abc_pop = Inr abc_table \<and>
   map year (country_rows ''ABC'' abc_table) = [2020, 2021, 2022] \<and>
   map dengue_cases (country_rows ''ABC'' abc_table) = [10, 20, 15] \<and>
   sorted (map year (country_rows ''ABC'' abc_table)) \<and>
   lag_cases_1 (country_rows ''ABC'' abc_table ! 0) = None \<and>
   lag_cases_1 (country_rows ''ABC'' abc_table ! 2)
     = Some (dengue_cases (country_rows ''ABC'' abc_table ! 1)) \<and>
   distinct (map year (country_rows ''ABC'' abc_table)) \<and>
   abc_table ! 0 \<in> set (country_rows ''ABC'' abc_table) \<and>
   abc_table ! 1 \<in> set (country_rows ''ABC'' abc_table) \<and>
   year (abc_table ! 1) = year (abc_table ! 0) + 1 \<and>
   lag_cases_1 (abc_table ! 1) = Some (dengue_cases (abc_table ! 0))"
proof -
  let ?cs = "country_rows ''ABC'' abc_table"
  have c: "map year ?cs = [2020, 2021, 2022]" "map dengue_cases ?cs = [10, 20, 15]"
    "0 < length ?cs" "2 < length ?cs"
    by (simp_all add: country_rows_def abc_table_def feature_def)
  have d: "distinct (map year ?cs)"
    by (simp add: c(1))
  have m: "abc_table ! 0 \<in> set ?cs" "abc_table ! 1 \<in> set ?cs"
    "year (abc_table ! 1) = year (abc_table ! 0) + 1"
    by (simp_all add: country_rows_def abc_table_def feature_def)
  note t = lag_cases_1_previous_row [OF abc_run, of "''ABC''"]
  from t have "sorted (map year ?cs)"
    by blast
  moreover from t c(3) have "lag_cases_1 (?cs ! 0) = None"
    by simp
  moreover from t c(4) have "lag_cases_1 (?cs ! 2) = Some (dengue_cases (?cs ! 1))"
    by fastforce
  moreover from t d m have "lag_cases_1 (abc_table ! 1) = Some (dengue_cases (abc_table ! 0))"
    by blast
  ultimately show ?thesis
    using abc_run c(1,2) d m by blast
qed



section \<open>Rate and keys of the feature table\<close>

lemma assign_year_error:
  assumes "assign_year rs = Inl e"
  shows "e = ValueError"
  using assms by (induction rs arbitrary: e) (auto split: option.splits sum.splits)

lemma join_rows_error:
  assumes "join_rows ms = Inl e"
  shows "e = ValueError"
  using assms
  by (induction ms arbitrary: e)
     (auto simp: join_row_def split: prod.splits option.splits sum.splits)

lemma choose_time_dim_error:
  assumes "choose_time_dim dengue pop = Inl e"
  shows "e = ValueError"
  using assms
  by (auto simp: choose_time_dim_def split: if_splits sum.splits dest: assign_year_error)

lemma align_error:
  assumes "align c = Inl e"
  shows "e = ValueError \<or> e = KeyError ''indicator_name_norm''"
proof (cases c)
  case (Yearly dy py)
  then show ?thesis
    using assms by (auto simp: Let_def split: sum.splits dest: join_rows_error)
next
  case (Monthly dm pm)
  then show ?thesis
    using assms by simp
qed

lemma prepare_data_error:
  assumes "prepare_data dengue pop = Inl e"
  shows "e = ValueError \<or> e = KeyError ''indicator_name_norm''"
  using assms
  by (auto simp: prepare_data_def split: sum.splits
           dest: choose_time_dim_error align_error)

lemma rate_cases:
  "rate c p = (case p of None \<Rightarrow> None
               | Some q \<Rightarrow> if q = 0 then None else Some (c / q * 100000))"
  by (simp add: rate_def replace_zero_def split: option.splits)

lemma row_key_truncate: "row_key (joined_row.truncate t) = row_key t"
  by (simp add: row_key_def joined_row.truncate_def)

lemma truncate_fields:
  "dengue_cases (joined_row.truncate t) = dengue_cases t"
  "population (joined_row.truncate t) = population t"
  "cases_per_100k (joined_row.truncate t) = cases_per_100k t"
  by (simp_all add: joined_row.truncate_def)

lemma set_truncate_lag_ma: "joined_row.truncate ` set (lag_ma rows) = set rows"
proof -
  have "joined_row.truncate ` set (lag_ma rows) = set (map joined_row.truncate (lag_ma rows))"
    by simp
  also have "\<dots> = set rows"
    by (simp only: truncate_lag_ma set_sort)
  finally show ?thesis .
qed

lemma join_rows_keys:
  assumes "join_rows ms = Inr rows"
  shows "map row_key rows = map fst ms"
proof -
  have a: "list_all2 (\<lambda>m r. join_row m = Inr r) ms rows"
    using assms by (rule join_rows_all2)
  show ?thesis
  proof (rule nth_equalityI)
    show "length (map row_key rows) = length (map fst ms)"
      using a by (simp add: list_all2_lengthD)
    fix i assume "i < length (map row_key rows)"
    then have i: "i < length rows" "i < length ms"
      using a by (simp_all add: list_all2_lengthD)
    have "join_row (ms ! i) = Inr (rows ! i)"
      using list_all2_nthD [OF a i(2)] .
    then have "row_key (rows ! i) = fst (ms ! i)"
      by (simp add: row_key_def join_row_fields(1))
    then show "map row_key rows ! i = map fst ms ! i"
      using i by simp
  qed
qed

lemma join_rows_member:
  assumes "join_rows ms = Inr rows" "r \<in> set rows"
  shows "\<exists>m\<in>set ms. join_row m = Inr r"
proof -
  have a: "list_all2 (\<lambda>m r. join_row m = Inr r) ms rows"
    using assms(1) by (rule join_rows_all2)
  from assms(2) obtain i where i: "i < length rows" "rows ! i = r"
    by (auto simp: in_set_conv_nth)
  have l: "i < length ms"
    using a i(1) by (simp add: list_all2_lengthD)
  have "join_row (ms ! i) = Inr r"
    using list_all2_nthD [OF a l] i(2) by simp
  then show ?thesis
    using nth_mem [OF l] by blast
qed

lemma lag_ma_keys:
  "map row_key (lag_ma rows) = map row_key (sort_key (\<lambda>r. (f_spatial_dim r, year r)) rows)"
proof -
  have "map row_key (lag_ma rows) = map row_key (map joined_row.truncate (lag_ma rows))"
    by (simp add: comp_def row_key_truncate)
  then show ?thesis
    by (simp only: truncate_lag_ma)
qed


text \<open>The merged rows behind a feature table.\<close>

lemma table_rows:
  assumes "prepare_data dengue pop = Inr T"
  shows "\<exists>rows.
    T = lag_ma rows \<and>
    map row_key rows = map fst (groupby_agg time_key_of numeric_value pd_sum (year_rows dengue)) \<and>
    (\<forall>r\<in>set rows.
       cases_per_100k r = rate (dengue_cases r) (population r) \<and>
       dengue_cases r = pd_sum (map numeric_value
          (filter (\<lambda>x. time_key_of x = Some (row_key r)) (year_rows dengue))) \<and>
       population r = pd_mean (map population_of
          (filter (\<lambda>x. time_key_of x = Some (row_key r)) (year_rows pop))))"
proof -
  let ?dg = "groupby_agg time_key_of numeric_value pd_sum (year_rows dengue)"
  let ?pg = "groupby_agg time_key_of population_of pd_mean (year_rows pop)"
  from prepare_data_Inr [OF assms] obtain rows where
    j: "join_rows (merge_left ?dg ?pg) = Inr rows" and T: "T = lag_ma rows"
    by blast
  have k: "map row_key rows = map fst ?dg"
    using join_rows_keys [OF j] merge_left_keys [OF groupby_agg_distinct] by simp
  have f: "cases_per_100k r = rate (dengue_cases r) (population r) \<and>
       dengue_cases r = pd_sum (map numeric_value
          (filter (\<lambda>x. time_key_of x = Some (row_key r)) (year_rows dengue))) \<and>
       population r = pd_mean (map population_of
          (filter (\<lambda>x. time_key_of x = Some (row_key r)) (year_rows pop)))"
    if "r \<in> set rows" for r
  proof -
    from join_rows_member [OF j that] obtain m where
      m: "m \<in> set (merge_left ?dg ?pg)" "join_row m = Inr r"
      by blast
    have m': "(row_key r, dengue_cases r, population r) \<in> set (merge_left ?dg ?pg)"
      using m join_row_fields(1,2,3) [OF m(2)] by (simp add: row_key_def prod_eq_iff)
    have "(row_key r, dengue_cases r) \<in> set ?dg"
      using merge_left_entry(1) [OF m'] .
    then have c: "dengue_cases r = pd_sum (map numeric_value
          (filter (\<lambda>x. time_key_of x = Some (row_key r)) (year_rows dengue)))"
      by (rule groupby_agg_value)
    have p: "population r = pd_mean (map population_of
          (filter (\<lambda>x. time_key_of x = Some (row_key r)) (year_rows pop)))"
      using merge_left_entry(2) [OF m']
    proof
      assume a: "population r = None \<and> row_key r \<notin> fst ` set ?pg"
      then have "\<not> (\<exists>x\<in>set (year_rows pop). time_key_of x = Some (row_key r))"
        by (simp add: groupby_agg_key_set)
      then have "filter (\<lambda>x. time_key_of x = Some (row_key r)) (year_rows pop) = []"
        by (simp add: filter_empty_conv)
      then show ?thesis
        using a by (simp add: pd_mean_def List.map_filter_def)
    next
      assume "(row_key r, population r) \<in> set ?pg"
      then show ?thesis
        by (rule groupby_agg_value)
    qed
    show ?thesis
      using join_row_fields(4) [OF m(2)] c p by simp
  qed
  show ?thesis
    using T k f by blast
qed

text \<open>
  C4.  The script never raises a division fault; the divisor of the rate is never zero;
  in every feature table \<open>cases_per_100k\<close> of a row is null when its population is null
  or zero and \<open>dengue_cases / population * 100000\<close> otherwise; and every key of the
  aggregated case rows has its row in the table, with or without a matching population.
\<close>

theorem cases_per_100k_null_safe:
  "prepare_data dengue pop \<noteq> Inl ZeroDivisionError \<and>
   replace_zero p \<noteq> Some 0 \<and>
   (\<forall>T. prepare_data dengue pop = Inr T \<longrightarrow>
      (\<forall>r\<in>set T. cases_per_100k r =
         (case population r of
            None \<Rightarrow> None
          | Some q \<Rightarrow> if q = 0 then None else Some (dengue_cases r / q * 100000))) \<and>
      row_key ` set T = {k. \<exists>x\<in>set (year_rows dengue). time_key_of x = Some k})"
proof -
  have e: "prepare_data dengue pop \<noteq> Inl ZeroDivisionError"
    using prepare_data_error [of dengue pop ZeroDivisionError] by auto
  have z: "replace_zero p \<noteq> Some 0"
    by (simp add: replace_zero_def)
  have t: "(\<forall>r\<in>set T. cases_per_100k r =
         (case population r of
            None \<Rightarrow> None
          | Some q \<Rightarrow> if q = 0 then None else Some (dengue_cases r / q * 100000))) \<and>
      row_key ` set T = {k. \<exists>x\<in>set (year_rows dengue). time_key_of x = Some k}"
    if h: "prepare_data dengue pop = Inr T" for T
  proof -
    obtain rows where
      T: "T = lag_ma rows"
      and k: "map row_key rows = map fst (groupby_agg time_key_of numeric_value pd_sum (year_rows dengue))"
      and f: "\<forall>r\<in>set rows.
       cases_per_100k r = rate (dengue_cases r) (population r) \<and>
       dengue_cases r = pd_sum (map numeric_value
          (filter (\<lambda>x. time_key_of x = Some (row_key r)) (year_rows dengue))) \<and>
       population r = pd_mean (map population_of
          (filter (\<lambda>x. time_key_of x = Some (row_key r)) (year_rows pop)))"
    using table_rows [OF h] by blast
    have "cases_per_100k r = (case population r of None \<Rightarrow> None
          | Some q \<Rightarrow> if q = 0 then None else Some (dengue_cases r / q * 100000))"
      if "r \<in> set T" for r
    proof -
      have "joined_row.truncate r \<in> set rows"
        using that set_truncate_lag_ma [of rows] T by blast
      with f have "cases_per_100k (joined_row.truncate r) =
          rate (dengue_cases (joined_row.truncate r)) (population (joined_row.truncate r))"
        by blast
      then have "cases_per_100k r = rate (dengue_cases r) (population r)"
        by (simp only: truncate_fields)
      then show ?thesis
        by (simp only: rate_cases)
    qed
    moreover have "row_key ` set T = {k. \<exists>x\<in>set (year_rows dengue). time_key_of x = Some k}"
    proof -
      have "row_key ` set T = set (map row_key T)"
        by simp
      also have "\<dots> = set (map row_key rows)"
        by (simp only: T lag_ma_keys set_map set_sort)
      also have "\<dots> = fst ` set (groupby_agg time_key_of numeric_value pd_sum (year_rows dengue))"
        by (simp only: k set_map)
      finally show ?thesis
        by (simp only: groupby_agg_key_set)
    qed
    ultimately show ?thesis
      by blast
  qed
  show ?thesis
    using e z t by blast
qed

lemma mixed_run: "prepare_data abc_dengue mixed_pop = Inr mixed_table"
  by code_simp

theorem cases_per_100k_null_safe_witness:
  "prepare_data abc_dengue mixed_pop = Inr mixed_table \<and>
   map population mixed_table = [Some 0, None, Some 50000] \<and>
   map dengue_cases mixed_table = [10, 20, 15] \<and>
   cases_per_100k (mixed_table ! 0) = None \<and>
   cases_per_100k (mixed_table ! 1) = None \<and>
   cases_per_100k (mixed_table ! 2) = Some (15 / 50000 * 100000) \<and>
   row_key ` set mixed_table = {k. \<exists>x\<in>set (year_rows abc_dengue). time_key_of x = Some k}"
proof -
  have c: "map population mixed_table = [Some 0, None, Some 50000]"
    "map dengue_cases mixed_table = [10, 20, 15]"
    by (simp_all add: mixed_table_def feature_def)
  have m: "mixed_table ! 0 \<in> set mixed_table" "mixed_table ! 1 \<in> set mixed_table"
    "mixed_table ! 2 \<in> set mixed_table"
    by (simp_all add: mixed_table_def)
  have v: "population (mixed_table ! 0) = Some 0" "population (mixed_table ! 1) = None"
    "population (mixed_table ! 2) = Some 50000" "dengue_cases (mixed_table ! 2) = 15"
    by (simp_all add: mixed_table_def feature_def)
  from cases_per_100k_null_safe [of abc_dengue mixed_pop] mixed_run
  have r: "\<forall>r\<in>set mixed_table. cases_per_100k r =
         (case population r of
            None \<Rightarrow> None
          | Some q \<Rightarrow> if q = 0 then None else Some (dengue_cases r / q * 100000))"
    and k: "row_key ` set mixed_table = {k. \<exists>x\<in>set (year_rows abc_dengue). time_key_of x = Some k}"
    by blast+
  from r [rule_format, OF m(1)] have "cases_per_100k (mixed_table ! 0) = None"
    unfolding v by simp
  moreover from r [rule_format, OF m(2)] have "cases_per_100k (mixed_table ! 1) = None"
    unfolding v by simp
  moreover from r [rule_format, OF m(3)]
  have "cases_per_100k (mixed_table ! 2) = Some (15 / 50000 * 100000)"
    unfolding v by simp
  ultimately show ?thesis
    using mixed_run c k by blast
qed





section \<open>Choice of the time dimension\<close>



text \<open>Line 92: on the \<open>YEAR\<close> branch \<open>dengue_y\<close> has no column \<open>year\<close>.\<close>

lemma yearly_columns: "''year'' \<notin> set (dengue_y_columns (Yearly dy py))"
  by (simp add: rename_def raw_columns_def)










section \<open>Properties of the recalculation\<close>



text \<open>A body that is a string is handled as the value it decodes to.\<close>

lemma recalculate_string_body:
  assumes "loads s = Some (JObj kvs)"
  shows "recalculate loads (Body (JStr s)) dfy = recalculate loads (Body (JObj kvs)) dfy"
  using assms by (simp add: recalculate_def decode_def)



text \<open>
  C6 (the code departs from the claim).  The scored table has two countries in 2020 and
  2021; the rows of 2021 carry the labels 1 and 3.  Two records are sent, and the
  response holds the two numbers 10 and 20.  The handler reports success; the first
  record receives 20, the second number, and the second record receives NaN.
\<close>

theorem recalculate_misaligned:
  "map fst (select_year 2021 (read_csv scored_csv)) = [1, 3] \<and>
   length (payload (select_year 2021 (read_csv scored_csv))) = 2 \<and>
   fst (recalculate loads_sample (Body two_scores) (select_year 2021 (read_csv scored_csv)))
     = Updated \<and>
   risk_scores (snd (recalculate loads_sample (Body two_scores)
                       (select_year 2021 (read_csv scored_csv))))
     = [Some (JNum 20), None]"
  by code_simp

text \<open>
  The handler does what the claim says when the labels of the frame are \<open>0, 1, 2, \<dots>\<close>, that
  is when the selected rows are the first rows of the table.
\<close>

lemma recalculate_aligned:
  assumes "map fst dfy = [0..<length dfy]" "length xs = length dfy"
  shows "risk_scores (snd (recalculate loads (Body (JObj [(''risk_score'', JArr xs)])) dfy))
         = map cell xs"
proof (rule nth_equalityI)
  have r: "recalculate loads (Body (JObj [(''risk_score'', JArr xs)])) dfy
      = (Updated, set_risk_score (JArr xs) dfy)"
    by (simp add: recalculate_def decode_def)
  show "length (risk_scores (snd (recalculate loads (Body (JObj [(''risk_score'', JArr xs)])) dfy)))
      = length (map cell xs)"
    using assms(2) by (simp add: r risk_scores_def set_risk_score_def)
  fix i
  assume "i < length (risk_scores (snd (recalculate loads (Body (JObj [(''risk_score'', JArr xs)])) dfy)))"
  then have i: "i < length dfy"
    by (simp add: r risk_scores_def set_risk_score_def)
  have "fst (dfy ! i) = map fst dfy ! i"
    using i by simp
  also have "\<dots> = i"
    using i by (simp add: assms(1))
  finally have "fst (dfy ! i) = i" .
  then show "risk_scores (snd (recalculate loads (Body (JObj [(''risk_score'', JArr xs)])) dfy)) ! i
      = map cell xs ! i"
    using i assms(2)
    by (auto simp: r risk_scores_def set_risk_score_def split: prod.splits)
qed

end
